theory Spec2Isabelle
  imports Main "HOL-Library.Word"
begin

section \<open>JavaScript strings\<close>

text \<open>
  A JavaScript string is a sequence of UTF-16 code units. The helper \<open>js\<close> writes a
  literal: every character of the Isabelle string becomes the code unit of the same
  number (ASCII and Latin-1, which is all the literals of the view need).
\<close>

type_synonym code_unit = "16 word"
type_synonym jsstring = "code_unit list"

definition js :: "string \<Rightarrow> jsstring" where
  "js s = map of_char s"

text \<open>
  \<open>String.prototype.trim\<close> removes leading and trailing WhiteSpace and LineTerminator
  code points (ECMAScript 2015 and later): TAB, LF, VT, FF, CR, SP, NBSP, U+1680,
  U+2000 to U+200A, LS, PS, U+202F, U+205F, U+3000 and the byte order mark.
\<close>

definition isWhiteSpace :: "code_unit \<Rightarrow> bool" where
  "isWhiteSpace c \<longleftrightarrow>
     c = 0x9 \<or> c = 0xA \<or> c = 0xB \<or> c = 0xC \<or> c = 0xD \<or> c = 0x20 \<or> c = 0xA0 \<or>
     c = 0x1680 \<or> (0x2000 \<le> c \<and> c \<le> 0x200A) \<or> c = 0x2028 \<or> c = 0x2029 \<or>
     c = 0x202F \<or> c = 0x205F \<or> c = 0x3000 \<or> c = 0xFEFF"

definition trimStart :: "jsstring \<Rightarrow> jsstring" where
  "trimStart s = dropWhile isWhiteSpace s"

definition trimEnd :: "jsstring \<Rightarrow> jsstring" where
  "trimEnd s = rev (dropWhile isWhiteSpace (rev s))"

definition trim :: "jsstring \<Rightarrow> jsstring" where
  "trim s = trimEnd (trimStart s)"

section \<open>Data model: messages, the chat store, the chat view\<close>

datatype role = User | Assistant

text \<open>
  A message of the thread. \<open>timestamp\<close> is \<open>Date.now()\<close>, an integral number of
  milliseconds; \<open>provider\<close> is optional.
\<close>

record message =
  role :: role
  content :: jsstring
  timestamp :: int
  provider :: "jsstring option"

text \<open>The two pieces of store state the view reads: \<open>messages\<close> and \<open>isTyping\<close>.\<close>

record chat_store =
  messages :: "message list"
  isTyping :: bool

text \<open>The view's own reactive state (\<open>newMessage\<close>) together with the store it uses.\<close>

record chat_view =
  newMessage :: jsstring
  chatStore :: chat_store

section \<open>The view's handlers\<close>

text \<open>
  \<^verbatim>\<open>
  const handleSend = async () => {
    if (!newMessage.value.trim() || chatStore.isTyping) return;
    const text = newMessage.value;
    newMessage.value = '';
    await chatStore.sendMessage(text);
  };
  \<close>
  The store's \<open>sendMessage\<close> is the parameter \<open>sendMessage\<close>: it receives the text and
  runs from the page state in which it is called. \<open>!s\<close> on a string holds exactly
  when \<open>s\<close> is the empty string.
\<close>

definition handleSend :: "(jsstring \<Rightarrow> chat_view \<Rightarrow> chat_view) \<Rightarrow> chat_view \<Rightarrow> chat_view" where
  "handleSend sendMessage v =
     (if trim (newMessage v) = [] \<or> isTyping (chatStore v) then v
      else
        let text = newMessage v;
            v' = v\<lparr>newMessage := []\<rparr>
        in sendMessage text v')"

text \<open>
  The greeting pushed by \<open>onMounted\<close>; the inverted marks and the accented vowel are
  the Latin-1 code units U+00A1, U+00BF and U+00E9.
\<close>

definition greeting :: jsstring where
  "greeting =
     js (CHR 0xA1 # ''Hola! Soy el Agente de la Prefectura del Guayas. '' @
         CHR 0xBF # ''En qu'' @ CHR 0xE9 # '' puedo ayudarte hoy?'')"

definition greeting_message :: "int \<Rightarrow> message" where
  "greeting_message now =
     \<lparr>role = Assistant, content = greeting, timestamp = now, provider = None\<rparr>"

text \<open>
  \<^verbatim>\<open>
  onMounted(() => {
    if (chatStore.messages.length === 0) {
      chatStore.messages.push({ role: 'assistant', content: '...', timestamp: Date.now() });
    }
    scrollToBottom();
  });
  \<close>
  \<open>now\<close> is the value of \<open>Date.now()\<close>. \<open>scrollToBottom\<close> only moves the scroll
  position of a DOM element, which is no part of this state.
\<close>

definition onMounted :: "int \<Rightarrow> chat_view \<Rightarrow> chat_view" where
  "onMounted now v =
     (if length (messages (chatStore v)) = 0
      then v\<lparr>chatStore := (chatStore v)\<lparr>messages := messages (chatStore v) @ [greeting_message now]\<rparr>\<rparr>
      else v)"

text \<open>
  The list rendering \<open>v-for="(msg, index) in chatStore.messages"\<close> with
  \<open>:key="msg.timestamp + index"\<close>: one key per message, in thread order.
\<close>

definition render_key :: "message \<Rightarrow> nat \<Rightarrow> int" where
  "render_key msg index = timestamp msg + int index"

definition render_keys :: "message list \<Rightarrow> int list" where
  "render_keys msgs = map (\<lambda>(index, msg). render_key msg index) (enumerate 0 msgs)"

section \<open>Event bindings of the template\<close>

text \<open>
  The template binds \<open>handleSend\<close> twice:
  \<^verbatim>\<open><form @submit.prevent="handleSend">\<close> and
  \<^verbatim>\<open><textarea @keydown.enter.prevent="handleSend">\<close>.
  Vue compiles the first to \<open>withModifiers(handleSend, ['prevent'])\<close> and the second to
  \<open>withKeys(withModifiers(handleSend, ['prevent']), ['enter'])\<close>. The two wrappers are
  modelled as the framework defines them: a key modifier compares the hyphenated
  \<open>event.key\<close> with the modifier's name, a system modifier (\<open>ctrl\<close>, \<open>shift\<close>, \<open>alt\<close>,
  \<open>meta\<close>) or \<open>exact\<close> stops the handler only when it is written on the binding, and
  \<open>prevent\<close> and \<open>stop\<close> never stop it.
\<close>

record keyboard_event =
  key :: string
  ctrlKey :: bool
  shiftKey :: bool
  altKey :: bool
  metaKey :: bool

datatype dom_event = Submit | Keydown keyboard_event

datatype modifier = Stop | Prevent | Ctrl | Shift | Alt | Meta | Exact

text \<open>
  \<open>hyphenate\<close> is \<open>str.replace(/\B([A-Z])/g, '-$1').toLowerCase()\<close>: a capital letter
  that follows a word character gets a hyphen in front, then everything is put in lower
  case. Key names are ASCII, so lower case is ASCII lower case.
\<close>

definition is_upper :: "char \<Rightarrow> bool" where
  "is_upper c \<longleftrightarrow> (65::nat) \<le> of_char c \<and> (of_char c :: nat) \<le> 90"

definition is_word_char :: "char \<Rightarrow> bool" where
  "is_word_char c \<longleftrightarrow>
     is_upper c \<or> ((97::nat) \<le> of_char c \<and> (of_char c :: nat) \<le> 122) \<or>
     ((48::nat) \<le> of_char c \<and> (of_char c :: nat) \<le> 57) \<or> c = CHR ''_''"

definition to_lower :: "char \<Rightarrow> char" where
  "to_lower c = (if is_upper c then char_of (of_char c + (32::nat)) else c)"

fun hyphenate_from :: "bool \<Rightarrow> string \<Rightarrow> string" where
  "hyphenate_from after_word [] = []"
| "hyphenate_from after_word (c # cs) =
     (if is_upper c \<and> after_word then CHR ''-'' # to_lower c # hyphenate_from True cs
      else to_lower c # hyphenate_from (is_word_char c) cs)"

definition hyphenate :: "string \<Rightarrow> string" where
  "hyphenate s = hyphenate_from False s"

definition keyNames :: "string \<Rightarrow> string option" where
  "keyNames k =
     (if k = ''esc'' then Some ''escape''
      else if k = ''space'' then Some '' ''
      else if k = ''up'' then Some ''arrow-up''
      else if k = ''left'' then Some ''arrow-left''
      else if k = ''right'' then Some ''arrow-right''
      else if k = ''down'' then Some ''arrow-down''
      else if k = ''delete'' then Some ''backspace''
      else None)"

text \<open>Reading \<open>event.shiftKey\<close> and its like; a submit event has no such property.\<close>

fun pressed :: "modifier \<Rightarrow> dom_event \<Rightarrow> bool" where
  "pressed Ctrl (Keydown e) = ctrlKey e"
| "pressed Shift (Keydown e) = shiftKey e"
| "pressed Alt (Keydown e) = altKey e"
| "pressed Meta (Keydown e) = metaKey e"
| "pressed m ev = False"

text \<open>A guard that returns true stops the handler from running.\<close>

fun modifierGuard :: "modifier \<Rightarrow> modifier list \<Rightarrow> dom_event \<Rightarrow> bool" where
  "modifierGuard Stop mods ev = False"
| "modifierGuard Prevent mods ev = False"
| "modifierGuard Exact mods ev =
     list_ex (\<lambda>m. pressed m ev \<and> \<not> List.member mods m) [Ctrl, Shift, Alt, Meta]"
| "modifierGuard m mods ev = (\<not> pressed m ev)"

definition withModifiers :: "('s \<Rightarrow> 's) \<Rightarrow> modifier list \<Rightarrow> dom_event \<Rightarrow> 's \<Rightarrow> 's" where
  "withModifiers fn mods ev s =
     (if list_ex (\<lambda>m. modifierGuard m mods ev) mods then s else fn s)"

definition withKeys :: "(dom_event \<Rightarrow> 's \<Rightarrow> 's) \<Rightarrow> string list \<Rightarrow> dom_event \<Rightarrow> 's \<Rightarrow> 's" where
  "withKeys fn keys ev s =
     (case ev of
        Submit \<Rightarrow> s
      | Keydown e \<Rightarrow>
          let eventKey = hyphenate (key e)
          in if list_ex (\<lambda>k. k = eventKey \<or> keyNames k = Some eventKey) keys
             then fn ev s else s)"

definition form_onSubmit ::
  "(jsstring \<Rightarrow> chat_view \<Rightarrow> chat_view) \<Rightarrow> dom_event \<Rightarrow> chat_view \<Rightarrow> chat_view" where
  "form_onSubmit sendMessage = withModifiers (handleSend sendMessage) [Prevent]"

definition textarea_onKeydown ::
  "(jsstring \<Rightarrow> chat_view \<Rightarrow> chat_view) \<Rightarrow> dom_event \<Rightarrow> chat_view \<Rightarrow> chat_view" where
  "textarea_onKeydown sendMessage =
     withKeys (withModifiers (handleSend sendMessage) [Prevent]) [''enter'']"

text \<open>A submit event reaches the form's listener, a keydown the textarea's.\<close>

definition dispatch ::
  "(jsstring \<Rightarrow> chat_view \<Rightarrow> chat_view) \<Rightarrow> dom_event \<Rightarrow> chat_view \<Rightarrow> chat_view" where
  "dispatch sendMessage ev v =
     (case ev of
        Submit \<Rightarrow> form_onSubmit sendMessage ev v
      | Keydown e \<Rightarrow> textarea_onKeydown sendMessage ev v)"

text \<open>
  A store stand-in for concrete runs: it appends the text it is given to the thread
  as a user message and does nothing else.
\<close>

definition recording_sendMessage :: "jsstring \<Rightarrow> chat_view \<Rightarrow> chat_view" where
  "recording_sendMessage text v =
     v\<lparr>chatStore := (chatStore v)\<lparr>messages := messages (chatStore v) @
        [\<lparr>role = User, content = text, timestamp = 0, provider = None\<rparr>]\<rparr>\<rparr>"

section \<open>The chat service\<close>

text \<open>
  \<^verbatim>\<open>
  async sendMessage(message: string, history: any[] = [], provider?: string) {
    try {
      const response = await this.post<ChatResponse>('chat', { message, history, provider });
      return response.data;
    } catch (error) {
      console.error('Error sending message:', error);
      throw error;
    }
  }
  \<close>
  The body of the request, the response of the HTTP layer, and the world the call runs
  in: what \<open>console.error\<close> has printed and the state of the HTTP layer.
\<close>

record 'h chat_body =
  body_message :: jsstring
  body_history :: "'h list"
  body_provider :: "jsstring option"

record 'r http_response =
  data :: 'r
  status :: nat

record ('e, 'n) world =
  console :: "(jsstring \<times> 'e) list"
  net :: 'n

text \<open>
  \<open>post\<close> is the inherited \<open>APIBase.post\<close>, taken as a parameter: from the endpoint,
  the body and the state of the HTTP layer it gives the response or the error thrown,
  and the next state. An omitted \<open>history\<close> is \<open>None\<close> and defaults to the empty array;
  the optional \<open>provider\<close> is \<open>prov\<close>.
\<close>

definition ChatService_sendMessage ::
  "(string \<Rightarrow> 'h chat_body \<Rightarrow> 'n \<Rightarrow> ('e + 'r http_response) \<times> 'n) \<Rightarrow>
   jsstring \<Rightarrow> 'h list option \<Rightarrow> jsstring option \<Rightarrow> ('e, 'n) world \<Rightarrow> ('e + 'r) \<times> ('e, 'n) world" where
  "ChatService_sendMessage post message history prov w =
     (let history' = (case history of None \<Rightarrow> [] | Some h \<Rightarrow> h);
          body = \<lparr>body_message = message, body_history = history', body_provider = prov\<rparr>
      in case post ''chat'' body (net w) of
           (Inr response, n') \<Rightarrow> (Inr (data response), w\<lparr>net := n'\<rparr>)
         | (Inl error, n') \<Rightarrow>
             (Inl error, w\<lparr>console := console w @ [(js ''Error sending message:'', error)], net := n'\<rparr>))"

text \<open>
  An HTTP layer that keeps a log: \<open>logged post\<close> behaves as \<open>post\<close> and also records
  every request it is asked to make, in order.
\<close>

definition logged ::
  "(string \<Rightarrow> 'b \<Rightarrow> 'n \<Rightarrow> 'a \<times> 'n) \<Rightarrow> string \<Rightarrow> 'b \<Rightarrow> (string \<times> 'b) list \<times> 'n \<Rightarrow> 'a \<times> (string \<times> 'b) list \<times> 'n" where
  "logged post endpoint body st =
     (case st of (requests, n) \<Rightarrow>
        (case post endpoint body n of (r, n') \<Rightarrow> (r, (requests @ [(endpoint, body)], n'))))"

section \<open>The chat store\<close>

text \<open>The declared shape of the service's answer (\<open>interface ChatResponse\<close>).\<close>

record chat_response =
  resp_message :: jsstring
  response :: jsstring
  resp_provider :: "jsstring option"
  contextUsed :: "bool option"

text \<open>
  Modelled from the spec: the chat store's \<open>sendMessage\<close> (\<open>stores/chat\<close> is imported by
  the view but is not among the sources). Section 4.1: it pushes the user message at
  once, sets the waiting flag before the call, calls the chat service, on success pushes
  an assistant message with the returned text and the optional provider tag, on failure
  pushes an assistant message with a generic failure notice, and clears the flag on both
  paths; no exception leaves it. The spec fixes neither the notice nor the arguments of
  the service call, so \<open>failure_notice\<close> is a parameter and \<open>service\<close> gets the text and
  the store as it is when the call is made. \<open>t_user\<close> and \<open>t_reply\<close> are the times of the
  two pushes. The first component of the result is how the call ends: \<open>Inr ()\<close> for a
  normal return, \<open>Inl e\<close> for an exception \<open>e\<close> that leaves it.
\<close>

definition chatStore_sendMessage ::
  "(jsstring \<Rightarrow> chat_store \<Rightarrow> 'e + chat_response) \<Rightarrow> jsstring \<Rightarrow> int \<Rightarrow> int \<Rightarrow>
   jsstring \<Rightarrow> chat_store \<Rightarrow> ('e + unit) \<times> chat_store" where
  "chatStore_sendMessage service failure_notice t_user t_reply text s =
     (let s1 = s\<lparr>messages := messages s @
                 [\<lparr>role = User, content = text, timestamp = t_user, provider = None\<rparr>]\<rparr>;
          s2 = s1\<lparr>isTyping := True\<rparr>;
          s3 = (case service text s2 of
                  Inr r \<Rightarrow>
                    s2\<lparr>messages := messages s2 @
                      [\<lparr>role = Assistant, content = response r, timestamp = t_reply,
                        provider = resp_provider r\<rparr>]\<rparr>
                | Inl e \<Rightarrow>
                    s2\<lparr>messages := messages s2 @
                      [\<lparr>role = Assistant, content = failure_notice, timestamp = t_reply,
                        provider = None\<rparr>]\<rparr>)
      in (Inr (), s3\<lparr>isTyping := False\<rparr>))"

subsection \<open>Stand-ins for the HTTP layer and the chat service, for concrete runs\<close>

text \<open>
  An HTTP layer whose every request fails with the error 503, one whose every request
  is answered with the message of the body as \<open>data\<close>, and a chat service call that
  fails with 503. The state of the HTTP layers counts the requests.
\<close>

definition failing_post :: "string \<Rightarrow> nat chat_body \<Rightarrow> nat \<Rightarrow> (nat + jsstring http_response) \<times> nat" where
  "failing_post endpoint body k = (Inl 503, Suc k)"

definition echo_post :: "string \<Rightarrow> nat chat_body \<Rightarrow> nat \<Rightarrow> (nat + jsstring http_response) \<times> nat" where
  "echo_post endpoint body k = (Inr \<lparr>data = body_message body, status = 200\<rparr>, Suc k)"

definition failing_service :: "jsstring \<Rightarrow> chat_store \<Rightarrow> nat + chat_response" where
  "failing_service text s = Inl 503"

section \<open>Markdown rendering\<close>

text \<open>
  The view builds one formatter, \<open>new MarkdownIt({html: true, linkify: true,
  typographer: true})\<close>, replaces two of its renderer rules and renders every message
  body with it. The formatter is a library: its parser, its rendering of a single token
  and of inline content, and its initial rule table are parameters, the fields of
  \<open>markdown_it\<close>. A rule gets the token stream, an index and the environment of the run.
\<close>

record md_options =
  html :: bool
  linkify :: bool
  typographer :: bool

record token =
  tok_type :: string
  tok_tag :: string
  tok_nesting :: int
  tok_content :: jsstring

type_synonym 'env rule = "token list \<Rightarrow> nat \<Rightarrow> 'env \<Rightarrow> jsstring"

record 'env markdown_it =
  md_parse :: "jsstring \<Rightarrow> 'env \<Rightarrow> token list \<times> 'env"
  md_new_env :: 'env
  md_renderToken :: "token list \<Rightarrow> nat \<Rightarrow> jsstring"
  md_renderInline :: "token \<Rightarrow> 'env \<Rightarrow> jsstring"
  md_rules :: "string \<Rightarrow> 'env rule option"

definition view_options :: md_options where
  "view_options = \<lparr>html = True, linkify = True, typographer = True\<rparr>"

definition table_container_open :: jsstring where
  \<open>table_container_open = js ''<div class="table-container">''\<close>

definition table_container_close :: jsstring where
  "table_container_close = js ''</div>''"

text \<open>
  \<^verbatim>\<open>
  const defaultRender = md.renderer.rules.table_open || function (tokens, idx, options, env, self) {
    return self.renderToken(tokens, idx, options);
  };
  md.renderer.rules.table_open = function (tokens, idx, options, env, self) {
    return '<div class="table-container">' + defaultRender(tokens, idx, options, env, self);
  };
  \<close>
  and the same for \<open>table_close\<close>, with \<open>'</div>'\<close> after the default output.
\<close>

definition defaultRender :: "'env markdown_it \<Rightarrow> 'env rule" where
  "defaultRender md =
     (case md_rules md ''table_open'' of
        Some r \<Rightarrow> r
      | None \<Rightarrow> (\<lambda>tokens idx env. md_renderToken md tokens idx))"

definition set_table_open :: "'env markdown_it \<Rightarrow> 'env markdown_it" where
  "set_table_open md =
     md\<lparr>md_rules := (md_rules md)(''table_open'' \<mapsto>
          (\<lambda>tokens idx env. table_container_open @ defaultRender md tokens idx env))\<rparr>"

definition defaultTableClose :: "'env markdown_it \<Rightarrow> 'env rule" where
  "defaultTableClose md =
     (case md_rules md ''table_close'' of
        Some r \<Rightarrow> r
      | None \<Rightarrow> (\<lambda>tokens idx env. md_renderToken md tokens idx))"

definition set_table_close :: "'env markdown_it \<Rightarrow> 'env markdown_it" where
  "set_table_close md =
     md\<lparr>md_rules := (md_rules md)(''table_close'' \<mapsto>
          (\<lambda>tokens idx env. defaultTableClose md tokens idx env @ table_container_close))\<rparr>"

text \<open>
  The view's formatter \<open>md\<close>, from the library's constructor \<open>MarkdownIt\<close>: the two
  assignments in the order of the script.
\<close>

definition view_md :: "(md_options \<Rightarrow> 'env markdown_it) \<Rightarrow> 'env markdown_it" where
  "view_md MarkdownIt = set_table_close (set_table_open (MarkdownIt view_options))"

text \<open>
  The library's rendering loop, \<open>Renderer.render\<close>: an \<open>inline\<close> token is rendered by
  \<open>renderInline\<close>, a token whose type has a rule by that rule, any other by
  \<open>renderToken\<close>; the outputs are concatenated in order.
\<close>

definition render_at :: "'env markdown_it \<Rightarrow> token list \<Rightarrow> 'env \<Rightarrow> nat \<Rightarrow> jsstring" where
  "render_at md tokens env i =
     (let t = tokens ! i
      in if tok_type t = ''inline'' then md_renderInline md t env
         else case md_rules md (tok_type t) of
                Some r \<Rightarrow> r tokens i env
              | None \<Rightarrow> md_renderToken md tokens i)"

definition renderer_render :: "'env markdown_it \<Rightarrow> token list \<Rightarrow> 'env \<Rightarrow> jsstring" where
  "renderer_render md tokens env = concat (map (render_at md tokens env) [0..<length tokens])"

text \<open>
  \<open>md.render(src)\<close>: the source is parsed in a fresh environment and the tokens are
  rendered. The call is a method of a mutable object, so the formatter is threaded
  through: the call reads its rules and assigns none.
\<close>

definition md_render :: "jsstring \<Rightarrow> 'env markdown_it \<Rightarrow> jsstring \<times> 'env markdown_it" where
  "md_render src md =
     (case md_parse md src (md_new_env md) of
        (tokens, env) \<Rightarrow> (renderer_render md tokens env, md))"

text \<open>
  \<^verbatim>\<open>
  const renderMarkdown = (content: string) => { return md.render(content); };
  \<close>
\<close>

definition renderMarkdown :: "jsstring \<Rightarrow> 'env markdown_it \<Rightarrow> jsstring \<times> 'env markdown_it" where
  "renderMarkdown src md = md_render src md"

text \<open>How often a pattern occurs in a string, overlapping occurrences included.\<close>

fun occurrences :: "'a list \<Rightarrow> 'a list \<Rightarrow> nat" where
  "occurrences pat [] = 0"
| "occurrences pat (x # xs) =
     (if take (length pat) (x # xs) = pat then 1 else 0) + occurrences pat xs"

text \<open>
  The output for the tokens at positions \<open>a\<close> up to \<open>b\<close> (excluded), and the positions
  at which a token of a given type stands.
\<close>

definition render_range :: "'env markdown_it \<Rightarrow> token list \<Rightarrow> 'env \<Rightarrow> nat \<Rightarrow> nat \<Rightarrow> jsstring" where
  "render_range md tokens env a b = concat (map (render_at md tokens env) [a..<b])"

definition indices_of :: "string \<Rightarrow> token list \<Rightarrow> nat list" where
  "indices_of ty tokens = filter (\<lambda>k. tok_type (tokens ! k) = ty) [0..<length tokens]"

subsection \<open>One document, for concrete runs\<close>

text \<open>
  A document with one markdown table between two lines of raw HTML:
  \<^verbatim>\<open>
  <div class="table-container">

  | a |
  |---|
  | b |

  </div>
  \<close>
  and the library at this document. With \<open>html: true\<close> the parser turns each raw HTML
  line into an \<open>html_block\<close> token and the table into the tokens from \<open>table_open\<close> to
  \<open>table_close\<close>; the library's rule for \<open>html_block\<close> returns the token's content as
  it is; \<open>renderToken\<close> writes the tag of the token (attributes and line breaks are left
  out here).
\<close>

definition example_source :: jsstring where
  \<open>example_source =
     js ''<div class="table-container">'' @ [0xA, 0xA] @
     js ''| a |'' @ [0xA] @ js ''|---|'' @ [0xA] @ js ''| b |'' @ [0xA, 0xA] @
     js ''</div>''\<close>

definition tk :: "string \<Rightarrow> string \<Rightarrow> int \<Rightarrow> jsstring \<Rightarrow> token" where
  "tk ty tg n c = \<lparr>tok_type = ty, tok_tag = tg, tok_nesting = n, tok_content = c\<rparr>"

definition example_tokens :: "token list" where
  \<open>example_tokens =
     [tk ''html_block'' [] 0 (js ''<div class="table-container">'' @ [0xA]),
      tk ''table_open'' ''table'' 1 [],
      tk ''thead_open'' ''thead'' 1 [],
      tk ''tr_open'' ''tr'' 1 [],
      tk ''th_open'' ''th'' 1 [],
      tk ''inline'' [] 0 (js ''a''),
      tk ''th_close'' ''th'' (- 1) [],
      tk ''tr_close'' ''tr'' (- 1) [],
      tk ''thead_close'' ''thead'' (- 1) [],
      tk ''tbody_open'' ''tbody'' 1 [],
      tk ''tr_open'' ''tr'' 1 [],
      tk ''td_open'' ''td'' 1 [],
      tk ''inline'' [] 0 (js ''b''),
      tk ''td_close'' ''td'' (- 1) [],
      tk ''tr_close'' ''tr'' (- 1) [],
      tk ''tbody_close'' ''tbody'' (- 1) [],
      tk ''table_close'' ''table'' (- 1) [],
      tk ''html_block'' [] 0 (js ''</div>'')]\<close>

definition example_MarkdownIt :: "md_options \<Rightarrow> unit markdown_it" where
  "example_MarkdownIt opts =
     \<lparr>md_parse = (\<lambda>src env. (if html opts \<and> src = example_source then example_tokens else [], env)),
      md_new_env = (),
      md_renderToken = (\<lambda>tokens idx.
         (if tok_nesting (tokens ! idx) = - 1 then js ''</'' else js ''<'') @
         js (tok_tag (tokens ! idx)) @ js ''>''),
      md_renderInline = (\<lambda>t env. tok_content t),
      md_rules = [''html_block'' \<mapsto> (\<lambda>tokens idx env. tok_content (tokens ! idx))]\<rparr>"

section \<open>Trimming\<close>

lemma trimStart_empty_iff: "trimStart s = [] \<longleftrightarrow> (\<forall>c \<in> set s. isWhiteSpace c)"
  by (simp add: trimStart_def dropWhile_eq_Nil_conv)

lemma trimEnd_empty_iff: "trimEnd s = [] \<longleftrightarrow> (\<forall>c \<in> set s. isWhiteSpace c)"
  by (simp add: trimEnd_def dropWhile_eq_Nil_conv)

lemma trim_empty_iff: "trim s = [] \<longleftrightarrow> (\<forall>c \<in> set s. isWhiteSpace c)"
proof
  assume "trim s = []"
  then have rest: "\<forall>c \<in> set (trimStart s). isWhiteSpace c"
    by (simp add: trim_def trimEnd_empty_iff)
  show "\<forall>c \<in> set s. isWhiteSpace c"
  proof (cases "trimStart s")
    case Nil
    then show ?thesis by (simp add: trimStart_empty_iff)
  next
    case (Cons c cs)
    then have "\<not> isWhiteSpace c"
      unfolding trimStart_def by (metis hd_dropWhile list.sel(1) list.simps(3))
    moreover have "isWhiteSpace c" using rest Cons by simp
    ultimately show ?thesis by simp
  qed
next
  assume all: "\<forall>c \<in> set s. isWhiteSpace c"
  then have "trimStart s = []" by (simp add: trimStart_empty_iff)
  then show "trim s = []" by (simp add: trim_def trimEnd_def)
qed

section \<open>The send guard of the view\<close>

text \<open>
  C2. When the input box holds nothing but white space (the empty string included), or
  when the waiting flag \<open>isTyping\<close> is already set, \<open>handleSend\<close> returns without calling
  the store: whatever the store's \<open>sendMessage\<close> would do, the page state is the one
  before the call, so the thread, its length and the waiting flag are unchanged.
\<close>

theorem handleSend_guard_noop:
  assumes "(\<forall>c \<in> set (newMessage v). isWhiteSpace c) \<or> isTyping (chatStore v)"
  shows "handleSend sendMessage v = v
       \<and> length (messages (chatStore (handleSend sendMessage v))) = length (messages (chatStore v))
       \<and> isTyping (chatStore (handleSend sendMessage v)) = isTyping (chatStore v)"
proof -
  from assms have "trim (newMessage v) = [] \<or> isTyping (chatStore v)"
    by (simp add: trim_empty_iff)
  then have "handleSend sendMessage v = v"
    by (simp add: handleSend_def)
  then show ?thesis by simp
qed

theorem handleSend_guard_noop_witness:
  "((\<forall>c \<in> set (newMessage \<lparr>newMessage = js '' '', chatStore = \<lparr>messages = [], isTyping = False\<rparr>\<rparr>). isWhiteSpace c)
     \<or> isTyping (chatStore \<lparr>newMessage = js '' '', chatStore = \<lparr>messages = [], isTyping = False\<rparr>\<rparr>))
   \<and> handleSend recording_sendMessage \<lparr>newMessage = js '' '', chatStore = \<lparr>messages = [], isTyping = False\<rparr>\<rparr>
       = \<lparr>newMessage = js '' '', chatStore = \<lparr>messages = [], isTyping = False\<rparr>\<rparr>
   \<and> handleSend recording_sendMessage \<lparr>newMessage = js ''hi'', chatStore = \<lparr>messages = [], isTyping = True\<rparr>\<rparr>
       = \<lparr>newMessage = js ''hi'', chatStore = \<lparr>messages = [], isTyping = True\<rparr>\<rparr>"
proof -
  have blank: "\<forall>c \<in> set (newMessage \<lparr>newMessage = js '' '', chatStore = \<lparr>messages = [], isTyping = False\<rparr>\<rparr>). isWhiteSpace c"
    by (simp add: js_def isWhiteSpace_def)
  have waiting: "isTyping (chatStore \<lparr>newMessage = js ''hi'', chatStore = \<lparr>messages = [], isTyping = True\<rparr>\<rparr>)"
    by simp
  show ?thesis
    using blank
      handleSend_guard_noop [OF disjI1, OF blank, of recording_sendMessage]
      handleSend_guard_noop [OF disjI2, OF waiting, of recording_sendMessage]
    by simp
qed

text \<open>
  C9. When the guard lets the input through (the trimmed text is not empty and the
  waiting flag is not set), \<open>handleSend\<close> calls the store's \<open>sendMessage\<close> with the text of
  the input box as it is, not trimmed, and the call is made in the page state in which
  the input box has already been emptied.
\<close>

theorem handleSend_clears_then_sends_untrimmed:
  assumes "trim (newMessage v) \<noteq> []" and "\<not> isTyping (chatStore v)"
  shows "handleSend sendMessage v = sendMessage (newMessage v) (v\<lparr>newMessage := []\<rparr>)"
  using assms by (simp add: handleSend_def)

theorem handleSend_clears_then_sends_untrimmed_witness:
  "trim (js '' hi '') = js ''hi''
   \<and> handleSend recording_sendMessage \<lparr>newMessage = js '' hi '', chatStore = \<lparr>messages = [], isTyping = False\<rparr>\<rparr>
     = \<lparr>newMessage = [], chatStore = \<lparr>messages =
          [\<lparr>role = User, content = js '' hi '', timestamp = 0, provider = None\<rparr>], isTyping = False\<rparr>\<rparr>"
proof -
  have t: "trim (js '' hi '') = js ''hi''"
    by (simp add: trim_def trimStart_def trimEnd_def isWhiteSpace_def js_def)
  have nonempty: "trim (newMessage \<lparr>newMessage = js '' hi '', chatStore = \<lparr>messages = [], isTyping = False\<rparr>\<rparr>) \<noteq> []"
    by (simp add: t) (simp add: js_def)
  have idle: "\<not> isTyping (chatStore \<lparr>newMessage = js '' hi '', chatStore = \<lparr>messages = [], isTyping = False\<rparr>\<rparr>)"
    by simp
  show ?thesis
    using t handleSend_clears_then_sends_untrimmed [OF nonempty idle, of recording_sendMessage]
    by (simp add: recording_sendMessage_def)
qed

section \<open>What triggers a send\<close>

lemma hyphenate_from_Nil_iff: "hyphenate_from b k = [] \<longleftrightarrow> k = []"
  by (cases k) simp_all

lemma to_lower_eq_iff:
  assumes "(97::nat) \<le> of_char t" "(of_char t :: nat) \<le> 122"
  shows "to_lower c = t \<longleftrightarrow> c = t \<or> (of_char c :: nat) + 32 = of_char t"
proof -
  have "\<not> is_upper t" using assms by (simp add: is_upper_def)
  show ?thesis
  proof (cases "is_upper c")
    case False
    then have "(of_char c :: nat) + 32 \<noteq> of_char t"
      using assms by (auto simp add: is_upper_def)
    with False show ?thesis by (simp add: to_lower_def)
  next
    case True
    then have "c \<noteq> t" using \<open>\<not> is_upper t\<close> by auto
    have "(of_char c :: nat) + 32 < 256" using True by (simp add: is_upper_def)
    then have "take_bit 8 ((of_char c :: nat) + 32) = of_char c + 32"
      by (simp add: take_bit_nat_eq_self_iff)
    then show ?thesis
      using True \<open>c \<noteq> t\<close> by (simp add: to_lower_def char_of_eq_iff)
  qed
qed

lemma lower_letter_cases:
  assumes "(97::nat) \<le> of_char t" "(of_char t :: nat) \<le> 122" "to_lower c = t"
  shows "c = t \<or> (is_upper c \<and> c = char_of ((of_char t :: nat) - 32))"
proof -
  from assms have "c = t \<or> (of_char c :: nat) + 32 = of_char t"
    by (simp add: to_lower_eq_iff)
  then show ?thesis
  proof
    assume "c = t" then show ?thesis by simp
  next
    assume eq: "(of_char c :: nat) + 32 = of_char t"
    then have "(of_char c :: nat) = of_char t - 32" by simp
    then have "char_of (of_char c :: nat) = char_of ((of_char t :: nat) - 32)" by simp
    then have "c = char_of ((of_char t :: nat) - 32)" by simp
    moreover have "is_upper c" using eq assms by (simp add: is_upper_def)
    ultimately show ?thesis by simp
  qed
qed

lemma hyphenate_from_step:
  assumes "hyphenate_from b k = x # xs" and "x \<noteq> CHR ''-''"
  obtains c cs where "k = c # cs" and "\<not> (is_upper c \<and> b)" and "to_lower c = x"
    and "hyphenate_from (is_word_char c) cs = xs"
proof (cases k)
  case Nil
  with assms show ?thesis by simp
next
  case (Cons c cs)
  with assms have "\<not> (is_upper c \<and> b)"
    by (auto split: if_splits)
  with assms Cons have "to_lower c = x" and "hyphenate_from (is_word_char c) cs = xs"
    by simp_all
  with Cons \<open>\<not> (is_upper c \<and> b)\<close> that show ?thesis by blast
qed

text \<open>
  The key modifier \<open>enter\<close> matches exactly two values of \<open>event.key\<close>: \<open>Enter\<close>, which is
  what the Enter key reports, and \<open>enter\<close>.
\<close>

lemma hyphenate_enter_iff: "hyphenate k = ''enter'' \<longleftrightarrow> k = ''Enter'' \<or> k = ''enter''"
proof
  assume "k = ''Enter'' \<or> k = ''enter''"
  moreover have "hyphenate ''Enter'' = ''enter''" by code_simp
  moreover have "hyphenate ''enter'' = ''enter''" by code_simp
  ultimately show "hyphenate k = ''enter''" by auto
next
  assume "hyphenate k = ''enter''"
  then have h: "hyphenate_from False k = ''enter''"
    by (simp add: hyphenate_def)
  have wd: "is_word_char CHR ''e''" "is_word_char CHR ''E''" "is_word_char CHR ''n''"
    "is_word_char CHR ''t''"
    by (simp_all add: is_word_char_def is_upper_def)
  from h obtain c1 k1 where k: "k = c1 # k1" and c1: "to_lower c1 = CHR ''e''"
    and r1: "hyphenate_from (is_word_char c1) k1 = ''nter''"
    by (rule hyphenate_from_step) simp_all
  have E: "char_of (69::nat) = CHR ''E''"
    by (simp add: char_of_eq_iff)
  from lower_letter_cases [OF _ _ c1] have c1': "c1 = CHR ''e'' \<or> c1 = CHR ''E''"
    by (auto simp add: E)
  with wd have w1: "is_word_char c1" by auto
  from r1 obtain c2 k2 where k1: "k1 = c2 # k2" and u2: "\<not> (is_upper c2 \<and> is_word_char c1)"
    and c2: "to_lower c2 = CHR ''n''" and r2: "hyphenate_from (is_word_char c2) k2 = ''ter''"
    by (rule hyphenate_from_step) simp_all
  from lower_letter_cases [OF _ _ c2] u2 w1 have c2': "c2 = CHR ''n''"
    by auto
  from r2 obtain c3 k3 where k2: "k2 = c3 # k3" and u3: "\<not> (is_upper c3 \<and> is_word_char c2)"
    and c3: "to_lower c3 = CHR ''t''" and r3: "hyphenate_from (is_word_char c3) k3 = ''er''"
    by (rule hyphenate_from_step) simp_all
  from lower_letter_cases [OF _ _ c3] u3 c2' wd have c3': "c3 = CHR ''t''"
    by auto
  from r3 obtain c4 k4 where k3: "k3 = c4 # k4" and u4: "\<not> (is_upper c4 \<and> is_word_char c3)"
    and c4: "to_lower c4 = CHR ''e''" and r4: "hyphenate_from (is_word_char c4) k4 = ''r''"
    by (rule hyphenate_from_step) simp_all
  from lower_letter_cases [OF _ _ c4] u4 c3' wd have c4': "c4 = CHR ''e''"
    by auto
  from r4 obtain c5 k5 where k4: "k4 = c5 # k5" and u5: "\<not> (is_upper c5 \<and> is_word_char c4)"
    and c5: "to_lower c5 = CHR ''r''" and r5: "hyphenate_from (is_word_char c5) k5 = []"
    by (rule hyphenate_from_step) simp_all
  from lower_letter_cases [OF _ _ c5] u5 c4' wd have c5': "c5 = CHR ''r''"
    by auto
  from r5 have "k5 = []" by (simp add: hyphenate_from_Nil_iff)
  with k k1 k2 k3 k4 c1' c2' c3' c4' c5' show "k = ''Enter'' \<or> k = ''enter''"
    by auto
qed

lemma hyphenate_Enter: "hyphenate ''Enter'' = ''enter''"
  by code_simp

lemma dispatch_Submit: "dispatch sendMessage Submit v = handleSend sendMessage v"
  by (simp add: dispatch_def form_onSubmit_def withModifiers_def)

lemma dispatch_Keydown:
  "dispatch sendMessage (Keydown e) v =
     (if hyphenate (key e) = ''enter'' then handleSend sendMessage v else v)"
  by (simp add: dispatch_def textarea_onKeydown_def withKeys_def withModifiers_def
      keyNames_def Let_def)

text \<open>
  C1, as the spec has it, fails: the keydown binding names no \<open>shift\<close> and no \<open>exact\<close>
  modifier, so it never reads \<open>shiftKey\<close>. With \<open>hi\<close> in the input box and no reply
  pending, Enter with Shift held runs \<open>handleSend\<close>, which empties the box and hands
  \<open>hi\<close> to the store.
\<close>

theorem shift_enter_sends:
  "shiftKey \<lparr>key = ''Enter'', ctrlKey = False, shiftKey = True, altKey = False, metaKey = False\<rparr>
   \<and> dispatch recording_sendMessage
        (Keydown \<lparr>key = ''Enter'', ctrlKey = False, shiftKey = True, altKey = False, metaKey = False\<rparr>)
        \<lparr>newMessage = js ''hi'', chatStore = \<lparr>messages = [], isTyping = False\<rparr>\<rparr>
     = \<lparr>newMessage = [], chatStore = \<lparr>messages =
          [\<lparr>role = User, content = js ''hi'', timestamp = 0, provider = None\<rparr>], isTyping = False\<rparr>\<rparr>"
  by (simp add: dispatch_Keydown hyphenate_Enter handleSend_def recording_sendMessage_def
      trim_def trimStart_def trimEnd_def isWhiteSpace_def js_def)

text \<open>
  C1, amended. A submit of the form runs \<open>handleSend\<close>. A keydown runs \<open>handleSend\<close>
  exactly when its \<open>event.key\<close> is \<open>Enter\<close> (or \<open>enter\<close>, which the key modifier matches
  as well), whether Shift or any other modifier key is held or not; a keydown with any
  other \<open>event.key\<close> leaves the page as it is.
\<close>

theorem submit_or_enter_runs_handleSend:
  "dispatch sendMessage Submit v = handleSend sendMessage v
   \<and> dispatch sendMessage (Keydown e) v =
       (if key e = ''Enter'' \<or> key e = ''enter'' then handleSend sendMessage v else v)"
  by (simp add: dispatch_Submit dispatch_Keydown hyphenate_enter_iff)

theorem submit_or_enter_runs_handleSend_witness:
  "dispatch recording_sendMessage
        (Keydown \<lparr>key = ''Enter'', ctrlKey = False, shiftKey = True, altKey = False, metaKey = False\<rparr>)
        \<lparr>newMessage = js ''hi'', chatStore = \<lparr>messages = [], isTyping = False\<rparr>\<rparr>
     = handleSend recording_sendMessage \<lparr>newMessage = js ''hi'', chatStore = \<lparr>messages = [], isTyping = False\<rparr>\<rparr>
   \<and> dispatch recording_sendMessage
        (Keydown \<lparr>key = ''a'', ctrlKey = False, shiftKey = False, altKey = False, metaKey = False\<rparr>)
        \<lparr>newMessage = js ''hi'', chatStore = \<lparr>messages = [], isTyping = False\<rparr>\<rparr>
     = \<lparr>newMessage = js ''hi'', chatStore = \<lparr>messages = [], isTyping = False\<rparr>\<rparr>"
  using
    submit_or_enter_runs_handleSend [of recording_sendMessage
      "\<lparr>newMessage = js ''hi'', chatStore = \<lparr>messages = [], isTyping = False\<rparr>\<rparr>"
      "\<lparr>key = ''Enter'', ctrlKey = False, shiftKey = True, altKey = False, metaKey = False\<rparr>"]
    submit_or_enter_runs_handleSend [of recording_sendMessage
      "\<lparr>newMessage = js ''hi'', chatStore = \<lparr>messages = [], isTyping = False\<rparr>\<rparr>"
      "\<lparr>key = ''a'', ctrlKey = False, shiftKey = False, altKey = False, metaKey = False\<rparr>"]
  by simp

section \<open>The greeting on mount\<close>

text \<open>
  C7. When the view is mounted and the thread is empty, the thread becomes the one
  assistant greeting; when the thread is not empty, nothing changes. So the greeting is
  appended exactly when the thread is empty. The waiting flag and the input box are
  untouched either way.
\<close>

theorem onMounted_greets_iff_empty:
  "(messages (chatStore v) = [] \<longrightarrow> messages (chatStore (onMounted now v)) = [greeting_message now])
   \<and> (messages (chatStore v) \<noteq> [] \<longrightarrow> onMounted now v = v)
   \<and> (messages (chatStore (onMounted now v)) = messages (chatStore v) @ [greeting_message now]
        \<longleftrightarrow> messages (chatStore v) = [])
   \<and> role (greeting_message now) = Assistant
   \<and> isTyping (chatStore (onMounted now v)) = isTyping (chatStore v)
   \<and> newMessage (onMounted now v) = newMessage v"
  by (simp add: onMounted_def greeting_message_def)

theorem onMounted_greets_iff_empty_witness:
  "messages (chatStore \<lparr>newMessage = [], chatStore = \<lparr>messages = [], isTyping = False\<rparr>\<rparr>) = []
   \<and> messages (chatStore (onMounted 1700000000000 \<lparr>newMessage = [], chatStore = \<lparr>messages = [], isTyping = False\<rparr>\<rparr>))
       = [greeting_message 1700000000000]
   \<and> messages (chatStore \<lparr>newMessage = [], chatStore = \<lparr>messages = [greeting_message 5], isTyping = False\<rparr>\<rparr>) \<noteq> []
   \<and> onMounted 1700000000000 \<lparr>newMessage = [], chatStore = \<lparr>messages = [greeting_message 5], isTyping = False\<rparr>\<rparr>
       = \<lparr>newMessage = [], chatStore = \<lparr>messages = [greeting_message 5], isTyping = False\<rparr>\<rparr>"
  using
    onMounted_greets_iff_empty [of "\<lparr>newMessage = [], chatStore = \<lparr>messages = [], isTyping = False\<rparr>\<rparr>" 1700000000000]
    onMounted_greets_iff_empty [of "\<lparr>newMessage = [], chatStore = \<lparr>messages = [greeting_message 5], isTyping = False\<rparr>\<rparr>" 1700000000000]
  by simp

section \<open>Render keys\<close>

lemma render_keys_nth:
  "i < length msgs \<Longrightarrow> render_keys msgs ! i = timestamp (msgs ! i) + int i"
  by (simp add: render_keys_def render_key_def nth_enumerate_eq)

text \<open>
  C10. The key of the message at position \<open>i\<close> is its timestamp plus \<open>i\<close>. The keys
  need not differ: when a message is followed by one whose timestamp is one
  millisecond less, the two are different messages with the same key.
\<close>

theorem render_key_sum_not_injective:
  "(\<forall>i < length msgs. render_keys msgs ! i = timestamp (msgs ! i) + int i)
   \<and> (timestamp a = timestamp b + 1 \<longrightarrow>
        a \<noteq> b \<and> render_keys [a, b] ! 0 = render_keys [a, b] ! 1 \<and> \<not> distinct (render_keys [a, b]))"
proof -
  have "\<forall>i < length msgs. render_keys msgs ! i = timestamp (msgs ! i) + int i"
    by (simp add: render_keys_nth)
  moreover have "timestamp a = timestamp b + 1 \<longrightarrow>
        a \<noteq> b \<and> render_keys [a, b] ! 0 = render_keys [a, b] ! 1 \<and> \<not> distinct (render_keys [a, b])"
    by (auto simp add: render_keys_def render_key_def)
  ultimately show ?thesis by blast
qed

theorem render_key_sum_not_injective_witness:
  "(1::nat) < length [greeting_message 1001, greeting_message 1000]
   \<and> render_keys [greeting_message 1001, greeting_message 1000] ! 1 = 1001
   \<and> timestamp (greeting_message 1001) = timestamp (greeting_message 1000) + 1
   \<and> greeting_message 1001 \<noteq> greeting_message 1000
   \<and> render_keys [greeting_message 1001, greeting_message 1000] ! 0
       = render_keys [greeting_message 1001, greeting_message 1000] ! 1"
  using render_key_sum_not_injective
    [of "[greeting_message 1001, greeting_message 1000]" "greeting_message 1001" "greeting_message 1000"]
  by (simp add: greeting_message_def)

section \<open>The chat service\<close>

text \<open>
  C5. When the HTTP call fails with the error \<open>e\<close>, \<open>ChatService.sendMessage\<close> ends with
  that same \<open>e\<close> thrown to its caller, after printing it once on the console; and the
  HTTP layer has been asked for exactly one request, the post to \<open>chat\<close>: there is no
  second attempt.
\<close>

theorem ChatService_sendMessage_rethrows_no_retry:
  assumes "post ''chat''
             \<lparr>body_message = m, body_history = (case h of None \<Rightarrow> [] | Some x \<Rightarrow> x), body_provider = p\<rparr> n
           = (Inl e, n')"
  shows "ChatService_sendMessage (logged post) m h p \<lparr>console = c, net = (requests, n)\<rparr> =
     (Inl e,
      \<lparr>console = c @ [(js ''Error sending message:'', e)],
       net = (requests @
                [(''chat'', \<lparr>body_message = m, body_history = (case h of None \<Rightarrow> [] | Some x \<Rightarrow> x),
                            body_provider = p\<rparr>)], n')\<rparr>)"
  using assms by (simp add: ChatService_sendMessage_def logged_def Let_def)

theorem ChatService_sendMessage_rethrows_no_retry_witness:
  "failing_post ''chat'' \<lparr>body_message = js ''hi'', body_history = [], body_provider = None\<rparr> 0 = (Inl 503, 1)
   \<and> ChatService_sendMessage (logged failing_post) (js ''hi'') None None \<lparr>console = [], net = ([], 0)\<rparr>
     = (Inl 503,
        \<lparr>console = [(js ''Error sending message:'', 503)],
         net = ([(''chat'', \<lparr>body_message = js ''hi'', body_history = [], body_provider = None\<rparr>)], 1)\<rparr>)"
proof -
  have fails: "failing_post ''chat''
      \<lparr>body_message = js ''hi'', body_history = (case None of None \<Rightarrow> [] | Some x \<Rightarrow> x), body_provider = None\<rparr> 0
      = (Inl 503, 1)"
    by (simp add: failing_post_def)
  show ?thesis
    using fails
      ChatService_sendMessage_rethrows_no_retry
        [where post = failing_post and m = "js ''hi''" and h = None and p = None and n = 0
           and e = 503 and n' = 1 and c = "[]" and requests = "[]"]
    by simp
qed

text \<open>
  C6. When the HTTP call succeeds, \<open>ChatService.sendMessage(message, history, provider)\<close>
  has posted one request, to the endpoint \<open>chat\<close>, whose body is made of these three
  values and nothing else, and it returns the \<open>data\<close> of the response as it came, of
  whatever shape; nothing is printed.
\<close>

theorem ChatService_sendMessage_posts_and_returns_data:
  assumes "post ''chat'' \<lparr>body_message = m, body_history = h, body_provider = p\<rparr> n = (Inr resp, n')"
  shows "ChatService_sendMessage (logged post) m (Some h) p \<lparr>console = c, net = (requests, n)\<rparr> =
     (Inr (data resp),
      \<lparr>console = c,
       net = (requests @ [(''chat'', \<lparr>body_message = m, body_history = h, body_provider = p\<rparr>)], n')\<rparr>)"
  using assms by (simp add: ChatService_sendMessage_def logged_def Let_def)

theorem ChatService_sendMessage_posts_and_returns_data_witness:
  "echo_post ''chat'' \<lparr>body_message = js ''hi'', body_history = [7], body_provider = Some (js ''x'')\<rparr> 0
     = (Inr \<lparr>data = js ''hi'', status = 200\<rparr>, 1)
   \<and> ChatService_sendMessage (logged echo_post) (js ''hi'') (Some [7]) (Some (js ''x''))
        \<lparr>console = ([] :: (jsstring \<times> nat) list), net = ([], 0)\<rparr>
     = (Inr (js ''hi''),
        \<lparr>console = [],
         net = ([(''chat'', \<lparr>body_message = js ''hi'', body_history = [7], body_provider = Some (js ''x'')\<rparr>)], 1)\<rparr>)"
proof -
  have succeeds: "echo_post ''chat'' \<lparr>body_message = js ''hi'', body_history = [7], body_provider = Some (js ''x'')\<rparr> 0
     = (Inr \<lparr>data = js ''hi'', status = 200\<rparr>, 1)"
    by (simp add: echo_post_def)
  show ?thesis
    using succeeds
      ChatService_sendMessage_posts_and_returns_data
        [where post = echo_post and m = "js ''hi''" and h = "[7]" and p = "Some (js ''x'')" and n = 0
           and resp = "\<lparr>data = js ''hi'', status = 200\<rparr>" and n' = 1 and c = "[]" and requests = "[]"]
    by simp
qed

section \<open>The chat store on a failed call\<close>

text \<open>
  C8. When the chat service call fails, the store's \<open>sendMessage\<close> returns normally, the
  thread has grown by the user message followed by exactly one assistant message, whose
  text is the failure notice whatever the error and the input were, and the waiting
  flag is false.
\<close>

theorem chatStore_sendMessage_failure:
  assumes "service input
             (s\<lparr>messages := messages s @
                  [\<lparr>role = User, content = input, timestamp = t_user, provider = None\<rparr>],
               isTyping := True\<rparr>) = Inl e"
  shows "chatStore_sendMessage service failure_notice t_user t_reply input s =
    (Inr (),
     s\<lparr>messages := messages s @
          [\<lparr>role = User, content = input, timestamp = t_user, provider = None\<rparr>,
           \<lparr>role = Assistant, content = failure_notice, timestamp = t_reply, provider = None\<rparr>],
       isTyping := False\<rparr>)"
  using assms by (simp add: chatStore_sendMessage_def Let_def)

theorem chatStore_sendMessage_failure_witness:
  "failing_service (js ''hi'')
      \<lparr>messages = [\<lparr>role = User, content = js ''hi'', timestamp = 10, provider = None\<rparr>],
       isTyping = True\<rparr> = Inl 503
   \<and> chatStore_sendMessage failing_service (js ''Error'') 10 20 (js ''hi'')
        \<lparr>messages = [], isTyping = False\<rparr>
     = (Inr (),
        \<lparr>messages =
           [\<lparr>role = User, content = js ''hi'', timestamp = 10, provider = None\<rparr>,
            \<lparr>role = Assistant, content = js ''Error'', timestamp = 20, provider = None\<rparr>],
         isTyping = False\<rparr>)"
proof -
  have fails: "failing_service (js ''hi'')
      \<lparr>messages = [\<lparr>role = User, content = js ''hi'', timestamp = 10, provider = None\<rparr>],
       isTyping = True\<rparr> = Inl 503"
    by (simp add: failing_service_def)
  show ?thesis
    using fails
      chatStore_sendMessage_failure
        [where service = failing_service and input = "js ''hi''" and s = "\<lparr>messages = [], isTyping = False\<rparr>"
           and t_user = 10 and e = 503 and failure_notice = "js ''Error''" and t_reply = 20]
    by simp
qed

section \<open>Tables in a container\<close>

lemma render_at_view_md:
  "render_at (view_md M) tokens env i =
     (if tok_type (tokens ! i) = ''table_open''
      then table_container_open @ render_at (M view_options) tokens env i
      else if tok_type (tokens ! i) = ''table_close''
      then render_at (M view_options) tokens env i @ table_container_close
      else render_at (M view_options) tokens env i)"
  by (simp add: render_at_def view_md_def set_table_open_def set_table_close_def
      defaultRender_def defaultTableClose_def Let_def split: option.splits)

lemma render_range_split:
  "a \<le> b \<Longrightarrow> b \<le> c \<Longrightarrow>
   render_range md tokens env a c = render_range md tokens env a b @ render_range md tokens env b c"
  unfolding render_range_def
  by (metis concat_append map_append upt_add_eq_append le_Suc_ex)

lemma render_range_same:
  assumes "\<forall>k. a \<le> k \<and> k < b \<longrightarrow>
             tok_type (tokens ! k) \<noteq> ''table_open'' \<and> tok_type (tokens ! k) \<noteq> ''table_close''"
  shows "render_range (view_md M) tokens env a b = render_range (M view_options) tokens env a b"
proof -
  have "map (render_at (view_md M) tokens env) [a..<b] =
        map (render_at (M view_options) tokens env) [a..<b]"
    using assms by (intro map_cong) (auto simp: render_at_view_md)
  then show ?thesis by (simp only: render_range_def)
qed

lemma render_range_single: "render_range md tokens env a (Suc a) = render_at md tokens env a"
  by (simp add: render_range_def)

lemma renderer_render_range:
  "renderer_render md tokens env = render_range md tokens env 0 (length tokens)"
  by (simp add: renderer_render_def render_range_def)

lemma one_table_render:
  assumes ij: "i < j" "j < length tokens"
    and op: "tok_type (tokens ! i) = ''table_open''"
    and cl: "tok_type (tokens ! j) = ''table_close''"
    and only_op: "\<forall>k < length tokens. k \<noteq> i \<longrightarrow> tok_type (tokens ! k) \<noteq> ''table_open''"
    and only_cl: "\<forall>k < length tokens. k \<noteq> j \<longrightarrow> tok_type (tokens ! k) \<noteq> ''table_close''"
  shows "renderer_render (view_md M) tokens env =
           render_range (M view_options) tokens env 0 i @
           table_container_open @ render_range (M view_options) tokens env i (Suc j) @
           table_container_close @
           render_range (M view_options) tokens env (Suc j) (length tokens)"
proof -
  let ?H = "render_range (view_md M) tokens env"
  let ?D = "render_range (M view_options) tokens env"
  have pre: "?H 0 i = ?D 0 i"
    using ij only_op only_cl by (intro render_range_same) auto
  have mid: "?H (Suc i) j = ?D (Suc i) j"
    using ij only_op only_cl by (intro render_range_same) auto
  have post: "?H (Suc j) (length tokens) = ?D (Suc j) (length tokens)"
    using ij only_op only_cl by (intro render_range_same) auto
  have hi: "?H i (Suc i) = table_container_open @ ?D i (Suc i)"
    using op by (simp add: render_range_single render_at_view_md)
  have "tok_type (tokens ! j) \<noteq> ''table_open''"
    using cl by simp
  then have hj: "?H j (Suc j) = ?D j (Suc j) @ table_container_close"
    using cl by (simp add: render_range_single render_at_view_md)
  have splitH: "?H 0 (length tokens) =
      ?H 0 i @ ?H i (Suc i) @ ?H (Suc i) j @ ?H j (Suc j) @ ?H (Suc j) (length tokens)"
    using ij
    by (simp add: render_range_split [of 0 i "length tokens"]
        render_range_split [of i "Suc i" "length tokens"]
        render_range_split [of "Suc i" j "length tokens"]
        render_range_split [of j "Suc j" "length tokens"])
  have splitD: "?D i (Suc j) = ?D i (Suc i) @ ?D (Suc i) j @ ?D j (Suc j)"
    using ij
    by (simp add: render_range_split [of i "Suc i" "Suc j"]
        render_range_split [of "Suc i" j "Suc j"])
  show ?thesis
    by (simp add: renderer_render_range splitH splitD pre mid post hi hj)
qed

lemma indices_of_single:
  assumes "indices_of ty tokens = [i]"
  shows "i < length tokens" and "tok_type (tokens ! i) = ty"
    and "\<forall>k < length tokens. k \<noteq> i \<longrightarrow> tok_type (tokens ! k) \<noteq> ty"
proof -
  have mem: "\<And>k. k \<in> set (indices_of ty tokens) \<longleftrightarrow> k < length tokens \<and> tok_type (tokens ! k) = ty"
    by (auto simp add: indices_of_def)
  have "i \<in> set (indices_of ty tokens)"
    using assms by simp
  then show "i < length tokens" and "tok_type (tokens ! i) = ty"
    using mem by blast+
  show "\<forall>k < length tokens. k \<noteq> i \<longrightarrow> tok_type (tokens ! k) \<noteq> ty"
  proof (intro allI impI)
    fix k assume "k < length tokens" and "k \<noteq> i"
    show "tok_type (tokens ! k) \<noteq> ty"
    proof
      assume "tok_type (tokens ! k) = ty"
      with \<open>k < length tokens\<close> have "k \<in> set (indices_of ty tokens)"
        using mem by blast
      with assms \<open>k \<noteq> i\<close> show False by simp
    qed
  qed
qed

text \<open>
  C3, as the spec has it, fails: the formatter is built with \<open>html: true\<close>, so raw
  HTML of the input reaches the output. The document above has exactly one table, and
  its rendering holds the opening tag of a table container twice: once from the raw
  line in front of the table and once from the \<open>table_open\<close> rule, so that two containers
  enclose the one table.
\<close>

theorem table_in_two_containers:
  "indices_of ''table_open'' example_tokens = [1]
   \<and> indices_of ''table_close'' example_tokens = [16]
   \<and> md_parse (example_MarkdownIt view_options) example_source
        (md_new_env (example_MarkdownIt view_options)) = (example_tokens, ())
   \<and> occurrences table_container_open
        (fst (renderMarkdown example_source (view_md example_MarkdownIt))) = 2"
  by code_simp

text \<open>
  C3, amended. For every input whose token stream has exactly one \<open>table_open\<close> token,
  at position \<open>i\<close>, and exactly one \<open>table_close\<close> token, at a later position \<open>j\<close>, the view's
  output is the output of the formatter without the two rules, with exactly one
  \<open><div class="table-container">\<close> put right in front of the table's output and exactly one
  \<open></div>\<close> right behind it; what lies between the two tokens (the rows and columns of the
  table) plays no part. Nothing is said about container elements that the rest of the
  input brings along as raw HTML.
\<close>

theorem one_table_one_added_container:
  assumes "md_parse (MarkdownIt view_options) src (md_new_env (MarkdownIt view_options)) = (tokens, env)"
    and "indices_of ''table_open'' tokens = [i]"
    and "indices_of ''table_close'' tokens = [j]"
    and "i < j"
  shows "fst (renderMarkdown src (view_md MarkdownIt)) =
           render_range (MarkdownIt view_options) tokens env 0 i @
           table_container_open @
           render_range (MarkdownIt view_options) tokens env i (Suc j) @
           table_container_close @
           render_range (MarkdownIt view_options) tokens env (Suc j) (length tokens)
       \<and> fst (renderMarkdown src (MarkdownIt view_options)) =
           render_range (MarkdownIt view_options) tokens env 0 i @
           render_range (MarkdownIt view_options) tokens env i (Suc j) @
           render_range (MarkdownIt view_options) tokens env (Suc j) (length tokens)"
proof -
  note o = indices_of_single [OF assms(2)]
  note c = indices_of_single [OF assms(3)]
  have parse: "md_parse (view_md MarkdownIt) src (md_new_env (view_md MarkdownIt)) = (tokens, env)"
    using assms(1) by (simp add: view_md_def set_table_open_def set_table_close_def)
  have hooked: "fst (renderMarkdown src (view_md MarkdownIt)) =
      renderer_render (view_md MarkdownIt) tokens env"
    using parse by (simp add: renderMarkdown_def md_render_def)
  have plain: "fst (renderMarkdown src (MarkdownIt view_options)) =
      render_range (MarkdownIt view_options) tokens env 0 (length tokens)"
    using assms(1) by (simp add: renderMarkdown_def md_render_def renderer_render_range)
  have split: "render_range (MarkdownIt view_options) tokens env 0 (length tokens) =
           render_range (MarkdownIt view_options) tokens env 0 i @
           render_range (MarkdownIt view_options) tokens env i (Suc j) @
           render_range (MarkdownIt view_options) tokens env (Suc j) (length tokens)"
    using \<open>i < j\<close> c(1)
    by (simp add: render_range_split [of 0 i "length tokens"]
        render_range_split [of i "Suc j" "length tokens"])
  show ?thesis
    using one_table_render [OF \<open>i < j\<close> c(1) o(2) c(2) o(3) c(3), of MarkdownIt env]
    by (simp add: hooked plain split)
qed

lemma example_table_open: "indices_of ''table_open'' example_tokens = [1]"
  by code_simp

lemma example_table_close: "indices_of ''table_close'' example_tokens = [16]"
  by code_simp

lemma example_parse:
  "md_parse (example_MarkdownIt view_options) example_source
     (md_new_env (example_MarkdownIt view_options)) = (example_tokens, ())"
  by (simp add: example_MarkdownIt_def view_options_def)

theorem one_table_one_added_container_witness:
  "md_parse (example_MarkdownIt view_options) example_source
        (md_new_env (example_MarkdownIt view_options)) = (example_tokens, ())
   \<and> indices_of ''table_open'' example_tokens = [1]
   \<and> indices_of ''table_close'' example_tokens = [16]
   \<and> (1::nat) < 16
   \<and> fst (renderMarkdown example_source (view_md example_MarkdownIt)) =
           render_range (example_MarkdownIt view_options) example_tokens () 0 1 @
           table_container_open @
           render_range (example_MarkdownIt view_options) example_tokens () 1 17 @
           table_container_close @
           render_range (example_MarkdownIt view_options) example_tokens () 17 18
   \<and> render_range (example_MarkdownIt view_options) example_tokens () 1 17 =
       js ''<table><thead><tr><th>a</th></tr></thead><tbody><tr><td>b</td></tr></tbody></table>''"
proof -
  have len: "length example_tokens = 18"
    by (simp add: example_tokens_def)
  have tbl: "render_range (example_MarkdownIt view_options) example_tokens () 1 17 =
       js ''<table><thead><tr><th>a</th></tr></thead><tbody><tr><td>b</td></tr></tbody></table>''"
    by code_simp
  show ?thesis
    using one_table_one_added_container
        [where MarkdownIt = example_MarkdownIt and src = example_source and tokens = example_tokens
           and env = "()" and i = 1 and j = 16]
      example_parse example_table_open example_table_close tbl
    by (simp add: len)
qed

end
